theory Spec2Isabelle
  imports Main
begin

section \<open>Python values\<close>

text \<open>
  The report dictionary of \<^verbatim>\<open>report_downloader_app.py\<close> is typed \<^verbatim>\<open>Dict[str, Any]\<close>.
  Its values are modelled by the constructors below: \<^verbatim>\<open>None\<close>, \<^verbatim>\<open>str\<close>, \<^verbatim>\<open>int\<close>,
  \<^verbatim>\<open>list\<close> and \<^verbatim>\<open>dict\<close> (an association list in insertion order, keys being strings;
  a lookup takes the first binding of a key, and the dictionaries the code builds bind each
  key once). A \<^typ>\<open>char\<close> stands for one code point below 256.
\<close>

datatype pyval =
    PNone
  | PStr string
  | PInt int
  | PList "pyval list"
  | PDict "(string \<times> pyval) list"

text \<open>The exceptions the modelled code can meet; \<open>ExternalError\<close> is a fault raised
  inside pyodbc or python-docx, carrying its message.\<close>

datatype exn = AttributeError | TypeError | KeyError | ExternalError string

text \<open>Truth value of an object, as \<^verbatim>\<open>if x\<close> and \<^verbatim>\<open>if not x\<close> test it.\<close>

fun truthy :: "pyval \<Rightarrow> bool" where
  "truthy PNone = False"
| "truthy (PStr s) = (s \<noteq> [])"
| "truthy (PInt n) = (n \<noteq> 0)"
| "truthy (PList xs) = (xs \<noteq> [])"
| "truthy (PDict d) = (d \<noteq> [])"

text \<open>\<^verbatim>\<open>d.get(key, default)\<close> on a dictionary.\<close>

definition dict_get :: "(string \<times> pyval) list \<Rightarrow> string \<Rightarrow> pyval \<Rightarrow> pyval" where
  "dict_get d k dflt = (case map_of d k of None \<Rightarrow> dflt | Some v \<Rightarrow> v)"

text \<open>\<^verbatim>\<open>x.get(key, default)\<close> on any object: only a dictionary has the method.\<close>

fun py_get :: "pyval \<Rightarrow> string \<Rightarrow> pyval \<Rightarrow> exn + pyval" where
  "py_get (PDict d) k dflt = Inr (dict_get d k dflt)"
| "py_get v k dflt = Inl AttributeError"

text \<open>The items a \<^verbatim>\<open>for\<close> loop takes from an object: the elements of a list, the keys
  of a dictionary, the characters of a string; the others are not iterable.\<close>

fun py_iter :: "pyval \<Rightarrow> exn + pyval list" where
  "py_iter (PList xs) = Inr xs"
| "py_iter (PDict d) = Inr (map (\<lambda>kv. PStr (fst kv)) d)"
| "py_iter (PStr s) = Inr (map (\<lambda>c. PStr [c]) s)"
| "py_iter v = Inl TypeError"

subsection \<open>Text of a value\<close>

fun str_nat :: "nat \<Rightarrow> string" where
  "str_nat n =
     (if n < 10 then [char_of (48 + n)]
      else str_nat (n div 10) @ [char_of (48 + n mod 10)])"

declare str_nat.simps [simp del]

definition str_int :: "int \<Rightarrow> string" where
  "str_int i = (if i < 0 then CHR ''-'' # str_nat (nat (- i)) else str_nat (nat i))"

text \<open>\<^verbatim>\<open>str.lower()\<close> on code points below 256: the ASCII capitals and the Latin-1
  capitals (all of 0xC0..0xDE but the multiplication sign 0xD7) move up by 32.\<close>

definition lower_char :: "char \<Rightarrow> char" where
  "lower_char c =
     (let n = (of_char c :: nat)
      in if (65 \<le> n \<and> n \<le> 90) \<or> (192 \<le> n \<and> n \<le> 222 \<and> n \<noteq> 215)
         then char_of (n + 32) else c)"

definition py_lower :: "string \<Rightarrow> string" where
  "py_lower s = map lower_char s"

section \<open>Styling a finding\<close>

text \<open>A python-docx run, as far as \<^verbatim>\<open>_apply_finding_color_to_run\<close> touches it:
  \<^verbatim>\<open>run.font.color.rgb\<close> and the tri-state \<^verbatim>\<open>run.bold\<close>, both \<^verbatim>\<open>None\<close> until set.\<close>

datatype rgb_color = RGBColor nat nat nat

record run =
  rgb :: "rgb_color option"
  bold :: "bool option"

definition dark_green :: rgb_color where "dark_green = RGBColor 0x00 0x64 0x00"
definition dark_red :: rgb_color where "dark_red = RGBColor 0xC0 0x00 0x00"
definition dark_blue :: rgb_color where "dark_blue = RGBColor 0x00 0x00 0x8B"

text \<open>
  \<^verbatim>\<open>def _apply_finding_color_to_run(run, finding_text)\<close>; the finding is a string or
  \<^verbatim>\<open>None\<close>. The assignment \<^verbatim>\<open>run.bold = True\<close> stands after the if/elif chain, at
  the level of the function body.
\<close>

definition apply_finding_color_to_run :: "run \<Rightarrow> string option \<Rightarrow> run" where
  "apply_finding_color_to_run r finding_text =
     (case finding_text of
        None \<Rightarrow> r
      | Some s \<Rightarrow>
          if s = [] then r
          else
            (let r1 =
               (if py_lower s = ''positive'' then r\<lparr>rgb := Some dark_green\<rparr>
                else if py_lower s = ''negative'' then r\<lparr>rgb := Some dark_red\<rparr>
                else if py_lower s = ''neutral'' then r\<lparr>rgb := Some dark_blue\<rparr>
                else r)
             in r1\<lparr>bold := Some True\<rparr>))"

text \<open>
  The specification's wording, "equals the word case-insensitively", written out on its
  own for a lower-case ASCII word: the same length, and each character either the word's
  letter or that letter's ASCII capital.
\<close>

definition same_letter :: "char \<Rightarrow> char \<Rightarrow> bool" where
  "same_letter c l =
     (c = l \<or> (65 \<le> (of_char c :: nat) \<and> (of_char c :: nat) \<le> 90
              \<and> of_char c + 32 = (of_char l :: nat)))"

definition caseless_eq :: "string \<Rightarrow> string \<Rightarrow> bool" where
  "caseless_eq s w = list_all2 same_letter s w"

definition ascii_lower_word :: "string \<Rightarrow> bool" where
  "ascii_lower_word w =
     list_all (\<lambda>l. 97 \<le> (of_char l :: nat) \<and> (of_char l :: nat) \<le> 122) w"

section \<open>Effects: state and exceptions\<close>

text \<open>
  A statement sequence inside \<^verbatim>\<open>try\<close> is an action on a state (the library calls made
  so far) that either raises or returns a value.
\<close>

type_synonym ('s, 'a) action = "'s \<Rightarrow> (exn + 'a) \<times> 's"

definition returnM :: "'a \<Rightarrow> ('s, 'a) action" where
  "returnM x = (\<lambda>s. (Inr x, s))"

definition liftE :: "exn + 'a \<Rightarrow> ('s, 'a) action" where
  "liftE r = (\<lambda>s. (r, s))"

definition bindM :: "('s, 'a) action \<Rightarrow> ('a \<Rightarrow> ('s, 'b) action) \<Rightarrow> ('s, 'b) action" where
  "bindM m f = (\<lambda>s. case m s of (Inl e, s') \<Rightarrow> (Inl e, s') | (Inr x, s') \<Rightarrow> f x s')"

text \<open>\<^verbatim>\<open>for x in xs: body\<close>\<close>

primrec forM :: "'a list \<Rightarrow> ('a \<Rightarrow> ('s, unit) action) \<Rightarrow> ('s, unit) action" where
  "forM [] body = returnM ()"
| "forM (x # xs) body = bindM (body x) (\<lambda>_. forM xs body)"

text \<open>A message box shown to the user: title, the text before the cause, the cause.
  Showing it is taken to raise nothing. Every exception of the model is an
  \<^verbatim>\<open>Exception\<close>, so \<^verbatim>\<open>except Exception\<close> catches each of them.\<close>

datatype dialog = ShowError string string exn

text \<open>What a call leaves behind: the value it returns, the external calls it made, in
  order, and the message boxes it showed.\<close>

record ('a, 's) outcome =
  returned :: 'a
  effects :: "'s list"
  dialogs :: "dialog list"

section \<open>The document renderer\<close>

text \<open>
  The calls \<^verbatim>\<open>generate_docx_from_combined_json\<close> makes into python-docx, with the
  arguments the code passes. The document under construction is the list of calls that
  returned.
\<close>

datatype docx_op =
    NewDocument
  | AddHeading pyval nat
  | AddParagraph pyval "string option"
  | AddRun string
  | SetRunBold
  | AddTable nat nat
  | SetTableStyle string
  | SetHeaderCell nat string
  | BoldHeaderCell nat
  | AddRow
  | SetRowCell nat pyval
  | Save string

text \<open>
  What lies outside the repository is a parameter: \<open>repr\<close> is Python's text for a list
  or a dictionary inside an f-string, and \<open>docx\<close> tells whether python-docx raises in a
  call, given the calls that came before.
\<close>

record env =
  repr :: "pyval \<Rightarrow> string"
  docx :: "docx_op list \<Rightarrow> docx_op \<Rightarrow> exn option"

text \<open>\<^verbatim>\<open>f"{v}"\<close>\<close>

definition py_str :: "env \<Rightarrow> pyval \<Rightarrow> string" where
  "py_str env v =
     (case v of PNone \<Rightarrow> ''None'' | PStr s \<Rightarrow> s | PInt i \<Rightarrow> str_int i | _ \<Rightarrow> repr env v)"

definition docx_call :: "env \<Rightarrow> docx_op \<Rightarrow> (docx_op list, unit) action" where
  "docx_call env op =
     (\<lambda>doc. case docx env doc op of
               Some e \<Rightarrow> (Inl e, doc)
             | None \<Rightarrow> (Inr (), doc @ [op]))"

text \<open>Lines 49-52 and 54-57: a heading and one bullet per item, when the list is not
  empty.\<close>

definition bulleted_section :: "env \<Rightarrow> pyval \<Rightarrow> string \<Rightarrow> string \<Rightarrow> (docx_op list, unit) action" where
  "bulleted_section env qualitative_summary key title =
     bindM (liftE (py_get qualitative_summary key (PList []))) (\<lambda>items.
       if truthy items then
         bindM (docx_call env (AddHeading (PStr title) 2)) (\<lambda>_.
         bindM (liftE (py_iter items)) (\<lambda>xs.
         forM xs (\<lambda>item. docx_call env (AddParagraph item (Some ''ListBullet'')))))
       else returnM ())"

text \<open>Lines 61-66: the body of the loop over the coaching items.\<close>

definition coaching_item :: "env \<Rightarrow> pyval \<Rightarrow> (docx_op list, unit) action" where
  "coaching_item env area_item =
     bindM (liftE (py_get area_item ''area'' (PStr ''Focus Area''))) (\<lambda>area.
     bindM (docx_call env (AddHeading area 3)) (\<lambda>_.
     bindM (liftE (py_get area_item ''specific_actions'' (PList []))) (\<lambda>recommendations.
       if truthy recommendations then
         bindM (docx_call env (AddParagraph (PStr []) None)) (\<lambda>_.
         bindM (docx_call env (AddRun ''Actionable Recommendations:'')) (\<lambda>_.
         bindM (docx_call env SetRunBold) (\<lambda>_.
         bindM (liftE (py_iter recommendations)) (\<lambda>recs.
         forM recs (\<lambda>rec_item. docx_call env (AddParagraph rec_item (Some ''ListNumber'')))))))
       else returnM ())))"

text \<open>Lines 59-66.\<close>

definition coaching_section :: "env \<Rightarrow> pyval \<Rightarrow> (docx_op list, unit) action" where
  "coaching_section env qualitative_summary =
     bindM (liftE (py_get qualitative_summary ''consolidated_coaching_focus'' (PList []))) (\<lambda>coaching_items.
       if truthy coaching_items then
         bindM (docx_call env (AddHeading (PStr ''Consolidated Coaching & Development Plan'') 2)) (\<lambda>_.
         bindM (liftE (py_iter coaching_items)) (\<lambda>items.
         forM items (coaching_item env)))
       else returnM ())"

text \<open>Lines 79-82: one table row.\<close>

definition table_row :: "env \<Rightarrow> pyval \<Rightarrow> (docx_op list, unit) action" where
  "table_row env item =
     bindM (docx_call env AddRow) (\<lambda>_.
     bindM (liftE (py_get item ''quality_point'' (PStr ''N/A''))) (\<lambda>c0.
     bindM (docx_call env (SetRowCell 0 c0)) (\<lambda>_.
     bindM (liftE (py_get item ''trend_observation'' (PStr ''N/A''))) (\<lambda>c1.
     bindM (docx_call env (SetRowCell 1 c1)) (\<lambda>_.
     bindM (liftE (py_get item ''coaching_recommendation_for_point'' (PStr ''N/A''))) (\<lambda>c2.
     docx_call env (SetRowCell 2 c2)))))))"

text \<open>Lines 68-82.\<close>

definition table_section :: "env \<Rightarrow> (string \<times> pyval) list \<Rightarrow> (docx_op list, unit) action" where
  "table_section env json_data =
     (let detailed_qpa = dict_get json_data ''detailed_quality_point_analysis'' (PList [])
      in if truthy detailed_qpa then
           bindM (docx_call env (AddHeading (PStr ''Detailed Quality Point Analysis'') 2)) (\<lambda>_.
           bindM (docx_call env (AddTable 1 3)) (\<lambda>_.
           bindM (docx_call env (SetTableStyle ''Table Grid'')) (\<lambda>_.
           bindM (docx_call env (SetHeaderCell 0 ''Quality Point'')) (\<lambda>_.
           bindM (docx_call env (SetHeaderCell 1 ''Trend Observation'')) (\<lambda>_.
           bindM (docx_call env (SetHeaderCell 2 ''Coaching Recommendation'')) (\<lambda>_.
           bindM (forM [0, 1, 2] (\<lambda>i. docx_call env (BoldHeaderCell i))) (\<lambda>_.
           bindM (liftE (py_iter detailed_qpa)) (\<lambda>items.
           forM items (table_row env)))))))))
         else returnM ())"

text \<open>Lines 40-45: the title and the summary paragraph.\<close>

definition title_text :: "env \<Rightarrow> pyval \<Rightarrow> string" where
  "title_text env agent_display_name =
     ''Performance Trend Analysis & Coaching Report: '' @ py_str env agent_display_name"

definition summary_text :: "env \<Rightarrow> pyval \<Rightarrow> pyval \<Rightarrow> string" where
  "summary_text env n note =
     ''Analysis based on '' @ py_str env n @ '' calls. Period: '' @ py_str env note"

definition header_section :: "env \<Rightarrow> pyval \<Rightarrow> (docx_op list, unit) action" where
  "header_section env header =
     bindM (liftE (py_get header ''agent_name'' (PStr ''N/A''))) (\<lambda>agent_display_name.
     bindM (docx_call env (AddHeading (PStr (title_text env agent_display_name)) 1)) (\<lambda>_.
     bindM (liftE (py_get header ''number_of_reports_successfully_analyzed'' (PStr ''N/A''))) (\<lambda>n.
     bindM (liftE (py_get header ''analysis_period_note'' (PStr ''N/A''))) (\<lambda>note.
     docx_call env (AddParagraph (PStr (summary_text env n note)) None)))))"

text \<open>Lines 40-85: the body of the \<^verbatim>\<open>try\<close>.\<close>

definition render_body :: "env \<Rightarrow> (string \<times> pyval) list \<Rightarrow> string \<Rightarrow> (docx_op list, unit) action" where
  "render_body env json_data docx_filepath =
     bindM (docx_call env NewDocument) (\<lambda>_.
     bindM (header_section env (dict_get json_data ''report_header'' (PDict []))) (\<lambda>_.
     (let qualitative_summary =
            dict_get json_data ''qualitative_summary_and_coaching_plan'' (PDict [])
      in bindM (bulleted_section env qualitative_summary ''overall_strengths_observed''
                  ''Key Strengths & Consistent Positive Performance'') (\<lambda>_.
         bindM (bulleted_section env qualitative_summary ''overall_areas_for_development''
                  ''Areas for Development & Recurring Challenges'') (\<lambda>_.
         bindM (coaching_section env qualitative_summary) (\<lambda>_.
         bindM (table_section env json_data) (\<lambda>_.
         docx_call env (Save docx_filepath))))))))"

text \<open>\<^verbatim>\<open>def generate_docx_from_combined_json(json_data, docx_filepath)\<close>: \<^verbatim>\<open>True\<close> after
  the body, \<^verbatim>\<open>False\<close> and a message box after any exception.\<close>

definition generate_docx_from_combined_json ::
    "env \<Rightarrow> (string \<times> pyval) list \<Rightarrow> string \<Rightarrow> (bool, docx_op) outcome" where
  "generate_docx_from_combined_json env json_data docx_filepath =
     (case render_body env json_data docx_filepath [] of
        (Inr _, doc) \<Rightarrow> \<lparr>returned = True, effects = doc, dialogs = []\<rparr>
      | (Inl e, doc) \<Rightarrow>
          \<lparr>returned = False, effects = doc,
           dialogs = [ShowError ''DOCX Generation Error''
                        ''Failed to generate the .docx file:'' e]\<rparr>)"

section \<open>The report assembler\<close>

text \<open>The rows pyodbc returns, with the columns the code reads.\<close>

record main_row =
  AgentName :: pyval
  NumberOfReportsSuccessfullyAnalyzed :: pyval
  AnalysisPeriodNote :: pyval

record focus_row =
  CoachingFocusID :: pyval
  AreaText :: pyval

record detail_row =
  QualityPointText :: pyval
  TrendObservation :: pyval

text \<open>The six statements \<^verbatim>\<open>fetch_combined_analysis_data\<close> executes, with their
  parameter.\<close>

datatype query =
    MainQuery int
  | StrengthsQuery int
  | DevelopmentAreasQuery int
  | CoachingFocusQuery int
  | CoachingActionsQuery pyval
  | DetailQuery int

text \<open>
  The data store is a parameter: for each statement, the rows it returns (for the
  one-column statements, the column's values) or the exception pyodbc raises.
\<close>

record db =
  cursor_fault :: "exn option"
  main_sql :: "int \<Rightarrow> exn + main_row list"
  strengths_sql :: "int \<Rightarrow> exn + pyval list"
  development_areas_sql :: "int \<Rightarrow> exn + pyval list"
  coaching_focus_sql :: "int \<Rightarrow> exn + focus_row list"
  coaching_actions_sql :: "pyval \<Rightarrow> exn + pyval list"
  detail_sql :: "int \<Rightarrow> exn + detail_row list"

definition execute :: "query \<Rightarrow> exn + 'a \<Rightarrow> (query list, 'a) action" where
  "execute q r = (\<lambda>issued. (r, issued @ [q]))"

subsection \<open>Updating the report in place\<close>

definition bindE :: "exn + 'a \<Rightarrow> ('a \<Rightarrow> exn + 'b) \<Rightarrow> exn + 'b" where
  "bindE r f = (case r of Inl e \<Rightarrow> Inl e | Inr x \<Rightarrow> f x)"

text \<open>\<^verbatim>\<open>x[key]\<close>, \<^verbatim>\<open>x[key] = v\<close> and \<^verbatim>\<open>x.append(v)\<close>\<close>

fun py_subscript :: "pyval \<Rightarrow> string \<Rightarrow> exn + pyval" where
  "py_subscript (PDict d) k = (case map_of d k of None \<Rightarrow> Inl KeyError | Some v \<Rightarrow> Inr v)"
| "py_subscript v k = Inl TypeError"

fun dict_set :: "(string \<times> pyval) list \<Rightarrow> string \<Rightarrow> pyval \<Rightarrow> (string \<times> pyval) list" where
  "dict_set [] k v = [(k, v)]"
| "dict_set (kv # d) k v = (if fst kv = k then (k, v) # d else kv # dict_set d k v)"

fun py_store :: "pyval \<Rightarrow> string \<Rightarrow> pyval \<Rightarrow> exn + pyval" where
  "py_store (PDict d) k v = Inr (PDict (dict_set d k v))"
| "py_store x k v = Inl TypeError"

fun py_append :: "pyval \<Rightarrow> pyval \<Rightarrow> exn + pyval" where
  "py_append (PList xs) v = Inr (PList (xs @ [v]))"
| "py_append x v = Inl AttributeError"

text \<open>Lines 240-243:
  \<^verbatim>\<open>report["qualitative_summary_and_coaching_plan"]["consolidated_coaching_focus"].append(entry)\<close>\<close>

definition append_coaching_focus :: "pyval \<Rightarrow> pyval \<Rightarrow> exn + pyval" where
  "append_coaching_focus report entry =
     bindE (py_subscript report ''qualitative_summary_and_coaching_plan'') (\<lambda>summary.
     bindE (py_subscript summary ''consolidated_coaching_focus'') (\<lambda>foci.
     bindE (py_append foci entry) (\<lambda>foci'.
     bindE (py_store summary ''consolidated_coaching_focus'' foci') (\<lambda>summary'.
     py_store report ''qualitative_summary_and_coaching_plan'' summary'))))"

text \<open>Lines 253-257: \<^verbatim>\<open>report["detailed_quality_point_analysis"].append(entry)\<close>\<close>

definition append_detail :: "pyval \<Rightarrow> pyval \<Rightarrow> exn + pyval" where
  "append_detail report entry =
     bindE (py_subscript report ''detailed_quality_point_analysis'') (\<lambda>details.
     bindE (py_append details entry) (\<lambda>details'.
     py_store report ''detailed_quality_point_analysis'' details'))"

subsection \<open>The queries\<close>

text \<open>Lines 238-243.\<close>

primrec coaching_focus_loop :: "db \<Rightarrow> focus_row list \<Rightarrow> pyval \<Rightarrow> (query list, pyval) action" where
  "coaching_focus_loop d [] report = returnM report"
| "coaching_focus_loop d (focus_row # rest) report =
     bindM (execute (CoachingActionsQuery (CoachingFocusID focus_row))
              (coaching_actions_sql d (CoachingFocusID focus_row))) (\<lambda>actions.
     bindM (liftE (append_coaching_focus report
              (PDict [(''area'', AreaText focus_row),
                      (''specific_actions'', PList actions)]))) (\<lambda>report'.
     coaching_focus_loop d rest report'))"

text \<open>Lines 252-257.\<close>

primrec detail_loop :: "detail_row list \<Rightarrow> pyval \<Rightarrow> (query list, pyval) action" where
  "detail_loop [] report = returnM report"
| "detail_loop (detail_row # rest) report =
     bindM (liftE (append_detail report
              (PDict [(''quality_point'', QualityPointText detail_row),
                      (''trend_observation'', TrendObservation detail_row),
                      (''coaching_recommendation_for_point'', PStr [])]))) (\<lambda>report'.
     detail_loop rest report')"

text \<open>Lines 222-234: the dictionary literal.\<close>

definition initial_report :: "main_row \<Rightarrow> pyval list \<Rightarrow> pyval list \<Rightarrow> pyval" where
  "initial_report main_row strengths development_areas =
     PDict
       [(''report_header'',
           PDict [(''agent_name'', AgentName main_row),
                  (''number_of_reports_successfully_analyzed'',
                     NumberOfReportsSuccessfullyAnalyzed main_row),
                  (''analysis_period_note'', AnalysisPeriodNote main_row)]),
        (''qualitative_summary_and_coaching_plan'',
           PDict [(''overall_strengths_observed'', PList strengths),
                  (''overall_areas_for_development'', PList development_areas),
                  (''consolidated_coaching_focus'', PList [])]),
        (''detailed_quality_point_analysis'', PList [])]"

text \<open>Lines 215-259: the body of the \<^verbatim>\<open>try\<close>; \<^verbatim>\<open>fetchone()\<close> is the first row or
  \<^verbatim>\<open>None\<close>.\<close>

definition fetch_body :: "db \<Rightarrow> int \<Rightarrow> (query list, pyval option) action" where
  "fetch_body d analysis_id =
     bindM (liftE (case cursor_fault d of Some e \<Rightarrow> Inl e | None \<Rightarrow> Inr ())) (\<lambda>_.
     bindM (execute (MainQuery analysis_id) (main_sql d analysis_id)) (\<lambda>rows.
       case rows of
         [] \<Rightarrow> returnM None
       | main_row # _ \<Rightarrow>
           bindM (execute (StrengthsQuery analysis_id) (strengths_sql d analysis_id)) (\<lambda>strengths.
           bindM (execute (DevelopmentAreasQuery analysis_id)
                    (development_areas_sql d analysis_id)) (\<lambda>development_areas.
           bindM (execute (CoachingFocusQuery analysis_id)
                    (coaching_focus_sql d analysis_id)) (\<lambda>focus_rows.
           bindM (coaching_focus_loop d focus_rows
                    (initial_report main_row strengths development_areas)) (\<lambda>report.
           bindM (execute (DetailQuery analysis_id) (detail_sql d analysis_id)) (\<lambda>detail_rows.
           bindM (detail_loop detail_rows report) (\<lambda>report'.
           returnM (Some report')))))))))"

text \<open>\<^verbatim>\<open>def fetch_combined_analysis_data(self, analysis_id)\<close>: the report, or \<^verbatim>\<open>None\<close>
  when there is no main row, or \<^verbatim>\<open>None\<close> and a message box after any exception.\<close>

definition fetch_combined_analysis_data :: "db \<Rightarrow> int \<Rightarrow> (pyval option, query) outcome" where
  "fetch_combined_analysis_data d analysis_id =
     (case fetch_body d analysis_id [] of
        (Inr r, issued) \<Rightarrow> \<lparr>returned = r, effects = issued, dialogs = []\<rparr>
      | (Inl e, issued) \<Rightarrow>
          \<lparr>returned = None, effects = issued,
           dialogs = [ShowError ''Database Query Error''
                        ''An error occurred while fetching report details:'' e]\<rparr>)"

section \<open>Reading a report and a document\<close>

text \<open>The parts of a report dictionary, an absent key read as the renderer's default.\<close>

fun is_dict :: "pyval \<Rightarrow> bool" where
  "is_dict (PDict d) = True"
| "is_dict v = False"

fun is_list :: "pyval \<Rightarrow> bool" where
  "is_list (PList xs) = True"
| "is_list v = False"

definition field :: "pyval \<Rightarrow> string \<Rightarrow> pyval \<Rightarrow> pyval" where
  "field v k dflt = (case v of PDict d \<Rightarrow> dict_get d k dflt | _ \<Rightarrow> dflt)"

definition list_at :: "pyval \<Rightarrow> string \<Rightarrow> pyval list" where
  "list_at v k = (case field v k (PList []) of PList xs \<Rightarrow> xs | _ \<Rightarrow> [])"

definition header_of :: "(string \<times> pyval) list \<Rightarrow> pyval" where
  "header_of json_data = dict_get json_data ''report_header'' (PDict [])"

definition summary_of :: "(string \<times> pyval) list \<Rightarrow> pyval" where
  "summary_of json_data =
     dict_get json_data ''qualitative_summary_and_coaching_plan'' (PDict [])"

definition strengths_of :: "(string \<times> pyval) list \<Rightarrow> pyval list" where
  "strengths_of json_data = list_at (summary_of json_data) ''overall_strengths_observed''"

definition development_areas_of :: "(string \<times> pyval) list \<Rightarrow> pyval list" where
  "development_areas_of json_data =
     list_at (summary_of json_data) ''overall_areas_for_development''"

definition foci_of :: "(string \<times> pyval) list \<Rightarrow> pyval list" where
  "foci_of json_data = list_at (summary_of json_data) ''consolidated_coaching_focus''"

definition details_of :: "(string \<times> pyval) list \<Rightarrow> pyval list" where
  "details_of json_data = list_at (PDict json_data) ''detailed_quality_point_analysis''"

definition area_of :: "pyval \<Rightarrow> pyval" where
  "area_of focus = field focus ''area'' (PStr ''Focus Area'')"

definition actions_of :: "pyval \<Rightarrow> pyval list" where
  "actions_of focus = list_at focus ''specific_actions''"

text \<open>
  A report of the data model: the header and the summary are dictionaries, the four
  collections are lists, a coaching focus is a dictionary whose actions are a list, a
  quality-point detail is a dictionary. Any key may be absent; the items are any values.
\<close>

definition focus_shaped :: "pyval \<Rightarrow> bool" where
  "focus_shaped focus = (is_dict focus \<and> is_list (field focus ''specific_actions'' (PList [])))"

definition report_shaped :: "(string \<times> pyval) list \<Rightarrow> bool" where
  "report_shaped json_data =
     (is_dict (header_of json_data) \<and>
      is_dict (summary_of json_data) \<and>
      is_list (field (summary_of json_data) ''overall_strengths_observed'' (PList [])) \<and>
      is_list (field (summary_of json_data) ''overall_areas_for_development'' (PList [])) \<and>
      is_list (field (summary_of json_data) ''consolidated_coaching_focus'' (PList [])) \<and>
      list_all focus_shaped (foci_of json_data) \<and>
      is_list (dict_get json_data ''detailed_quality_point_analysis'' (PList [])) \<and>
      list_all is_dict (details_of json_data))"

text \<open>What a reader finds in the document: the headings of a level, the paragraphs of a
  style, the coaching blocks (a level-3 heading and the numbered paragraphs up to the next
  heading), and the data rows of the table (the cells set after each added row).\<close>

fun heading_texts :: "nat \<Rightarrow> docx_op list \<Rightarrow> pyval list" where
  "heading_texts l [] = []"
| "heading_texts l (AddHeading t l' # ops) =
     (if l' = l then t # heading_texts l ops else heading_texts l ops)"
| "heading_texts l (op # ops) = heading_texts l ops"


fun numbered_until_heading :: "docx_op list \<Rightarrow> pyval list" where
  "numbered_until_heading [] = []"
| "numbered_until_heading (AddHeading t l # ops) = []"
| "numbered_until_heading (AddParagraph t st # ops) =
     (if st = Some ''ListNumber'' then t # numbered_until_heading ops
      else numbered_until_heading ops)"
| "numbered_until_heading (op # ops) = numbered_until_heading ops"

fun focus_blocks :: "docx_op list \<Rightarrow> (pyval \<times> pyval list) list" where
  "focus_blocks [] = []"
| "focus_blocks (AddHeading t l # ops) =
     (if l = 3 then (t, numbered_until_heading ops) # focus_blocks ops else focus_blocks ops)"
| "focus_blocks (op # ops) = focus_blocks ops"



text \<open>An exception that python-docx raised in some call.\<close>

definition lib_fault :: "env \<Rightarrow> exn \<Rightarrow> bool" where
  "lib_fault env e = (\<exists>doc op. docx env doc op = Some e)"

text \<open>An action that, from any document, either returns having made exactly the calls
  \<open>ops\<close>, or raises an exception of python-docx.\<close>

definition emits :: "env \<Rightarrow> (docx_op list, 'a) action \<Rightarrow> docx_op list \<Rightarrow> bool" where
  "emits env m ops =
     (\<forall>doc. case m doc of
              (Inr u, doc') \<Rightarrow> doc' = doc @ ops
            | (Inl e, doc') \<Rightarrow> lib_fault env e)"

text \<open>The calls of a rendering that meets no exception, section by section.\<close>

definition bulleted_ops :: "pyval list \<Rightarrow> string \<Rightarrow> docx_op list" where
  "bulleted_ops items title =
     (if items = [] then []
      else AddHeading (PStr title) 2 # map (\<lambda>item. AddParagraph item (Some ''ListBullet'')) items)"

definition coaching_item_ops :: "pyval \<Rightarrow> docx_op list" where
  "coaching_item_ops focus =
     AddHeading (area_of focus) 3 #
       (if actions_of focus = [] then []
        else [AddParagraph (PStr []) None, AddRun ''Actionable Recommendations:'', SetRunBold]
               @ map (\<lambda>a. AddParagraph a (Some ''ListNumber'')) (actions_of focus))"

definition coaching_ops :: "pyval list \<Rightarrow> docx_op list" where
  "coaching_ops foci =
     (if foci = [] then []
      else AddHeading (PStr ''Consolidated Coaching & Development Plan'') 2
             # concat (map coaching_item_ops foci))"

definition table_row_ops :: "pyval \<Rightarrow> docx_op list" where
  "table_row_ops item =
     [AddRow,
      SetRowCell 0 (field item ''quality_point'' (PStr ''N/A'')),
      SetRowCell 1 (field item ''trend_observation'' (PStr ''N/A'')),
      SetRowCell 2 (field item ''coaching_recommendation_for_point'' (PStr ''N/A''))]"

definition table_ops :: "pyval list \<Rightarrow> docx_op list" where
  "table_ops details =
     (if details = [] then []
      else [AddHeading (PStr ''Detailed Quality Point Analysis'') 2,
            AddTable 1 3, SetTableStyle ''Table Grid'',
            SetHeaderCell 0 ''Quality Point'', SetHeaderCell 1 ''Trend Observation'',
            SetHeaderCell 2 ''Coaching Recommendation'',
            BoldHeaderCell 0, BoldHeaderCell 1, BoldHeaderCell 2]
             @ concat (map table_row_ops details))"

definition header_ops :: "env \<Rightarrow> pyval \<Rightarrow> docx_op list" where
  "header_ops env header =
     [AddHeading (PStr (title_text env (field header ''agent_name'' (PStr ''N/A''))) ) 1,
      AddParagraph
        (PStr (summary_text env
                 (field header ''number_of_reports_successfully_analyzed'' (PStr ''N/A''))
                 (field header ''analysis_period_note'' (PStr ''N/A'')))) None]"

definition sections_ops :: "(string \<times> pyval) list \<Rightarrow> docx_op list" where
  "sections_ops json_data =
     bulleted_ops (strengths_of json_data) ''Key Strengths & Consistent Positive Performance''
     @ bulleted_ops (development_areas_of json_data)
         ''Areas for Development & Recurring Challenges''
     @ coaching_ops (foci_of json_data)
     @ table_ops (details_of json_data)"

definition layout :: "env \<Rightarrow> (string \<times> pyval) list \<Rightarrow> string \<Rightarrow> docx_op list" where
  "layout env json_data docx_filepath =
     NewDocument # header_ops env (header_of json_data)
       @ sections_ops json_data @ [Save docx_filepath]"


section \<open>Reading the assembler\<close>

text \<open>The entries the assembler appends, and the report with its collections filled.\<close>

definition focus_entry :: "focus_row \<Rightarrow> pyval list \<Rightarrow> pyval" where
  "focus_entry focus_row actions =
     PDict [(''area'', AreaText focus_row), (''specific_actions'', PList actions)]"

definition detail_entry :: "detail_row \<Rightarrow> pyval" where
  "detail_entry detail_row =
     PDict [(''quality_point'', QualityPointText detail_row),
            (''trend_observation'', TrendObservation detail_row),
            (''coaching_recommendation_for_point'', PStr [])]"

definition report_with ::
    "main_row \<Rightarrow> pyval list \<Rightarrow> pyval list \<Rightarrow> pyval list \<Rightarrow> pyval list \<Rightarrow> pyval" where
  "report_with main_row strengths development_areas foci details =
     PDict
       [(''report_header'',
           PDict [(''agent_name'', AgentName main_row),
                  (''number_of_reports_successfully_analyzed'',
                     NumberOfReportsSuccessfullyAnalyzed main_row),
                  (''analysis_period_note'', AnalysisPeriodNote main_row)]),
        (''qualitative_summary_and_coaching_plan'',
           PDict [(''overall_strengths_observed'', PList strengths),
                  (''overall_areas_for_development'', PList development_areas),
                  (''consolidated_coaching_focus'', PList foci)]),
        (''detailed_quality_point_analysis'', PList details)]"

text \<open>The coaching entries of the focus rows, or the first exception of an actions query.\<close>

primrec collect_foci :: "db \<Rightarrow> focus_row list \<Rightarrow> exn + pyval list" where
  "collect_foci d [] = Inr []"
| "collect_foci d (focus_row # rest) =
     bindE (coaching_actions_sql d (CoachingFocusID focus_row)) (\<lambda>actions.
     bindE (collect_foci d rest) (\<lambda>entries.
     Inr (focus_entry focus_row actions # entries)))"

text \<open>What the assembler returns or raises, query by query.\<close>

definition assemble :: "db \<Rightarrow> int \<Rightarrow> exn + pyval option" where
  "assemble d analysis_id =
     (case cursor_fault d of
        Some e \<Rightarrow> Inl e
      | None \<Rightarrow>
          bindE (main_sql d analysis_id) (\<lambda>rows.
            case rows of
              [] \<Rightarrow> Inr None
            | main_row # _ \<Rightarrow>
                bindE (strengths_sql d analysis_id) (\<lambda>strengths.
                bindE (development_areas_sql d analysis_id) (\<lambda>development_areas.
                bindE (coaching_focus_sql d analysis_id) (\<lambda>focus_rows.
                bindE (collect_foci d focus_rows) (\<lambda>foci.
                bindE (detail_sql d analysis_id) (\<lambda>detail_rows.
                Inr (Some (report_with main_row strengths development_areas foci
                             (map detail_entry detail_rows))))))))))"

text \<open>Every query after the main one returns rows.\<close>

definition child_queries_succeed :: "db \<Rightarrow> int \<Rightarrow> bool" where
  "child_queries_succeed d analysis_id =
     (\<not> isl (strengths_sql d analysis_id) \<and>
      \<not> isl (development_areas_sql d analysis_id) \<and>
      (case coaching_focus_sql d analysis_id of
         Inl e \<Rightarrow> False
       | Inr focus_rows \<Rightarrow>
           list_all (\<lambda>focus_row. \<not> isl (coaching_actions_sql d (CoachingFocusID focus_row)))
             focus_rows) \<and>
      \<not> isl (detail_sql d analysis_id))"

section \<open>Saving and faults\<close>






section \<open>Exceptions, call by call\<close>

text \<open>The calls \<open>ops\<close> made one after the other against python-docx, from the document
  \<open>doc\<close>: the first call that raises ends the run, with the calls that returned.\<close>

primrec play :: "env \<Rightarrow> docx_op list \<Rightarrow> docx_op list \<Rightarrow> (exn + unit) \<times> docx_op list" where
  "play env doc [] = (Inr (), doc)"
| "play env doc (op # ops) =
     (case docx env doc op of
        Some e \<Rightarrow> (Inl e, doc)
      | None \<Rightarrow> play env (doc @ [op]) ops)"


text \<open>An action that does nothing but make the calls \<open>ops\<close>.\<close>

definition plays :: "env \<Rightarrow> (docx_op list, unit) action \<Rightarrow> docx_op list \<Rightarrow> bool" where
  "plays env m ops = (\<forall>doc. m doc = play env doc ops)"



definition items :: "pyval \<Rightarrow> pyval list" where
  "items v = (case py_iter v of Inr xs \<Rightarrow> xs | Inl e \<Rightarrow> [])"







section \<open>Scenarios\<close>

text \<open>A python-docx that raises nowhere, and the report of the specification's scenario
  (analysis 42 of agent J. Smith).\<close>

definition quiet_env :: env where
  "quiet_env = \<lparr>repr = (\<lambda>v. []), docx = (\<lambda>doc op. None)\<rparr>"

definition scenario_report :: "(string \<times> pyval) list" where
  "scenario_report =
     [(''report_header'',
         PDict [(''agent_name'', PStr ''J. Smith''),
                (''number_of_reports_successfully_analyzed'', PInt 12),
                (''analysis_period_note'', PStr ''Q1 2024'')]),
      (''qualitative_summary_and_coaching_plan'',
         PDict [(''overall_strengths_observed'', PList [PStr ''Clear tone'']),
                (''overall_areas_for_development'', PList []),
                (''consolidated_coaching_focus'',
                   PList [PDict [(''area'', PStr ''Hold Procedure''),
                                 (''specific_actions'', PList [PStr ''Confirm before hold''])]])]),
      (''detailed_quality_point_analysis'',
         PList [PDict [(''quality_point'', PStr ''Greeting''),
                       (''trend_observation'', PStr ''Consistent''),
                       (''coaching_recommendation_for_point'', PStr [])]])]"

text \<open>The data store of the specification's scenario: analysis 42 and nothing else.\<close>

definition scenario_db :: db where
  "scenario_db =
     \<lparr>cursor_fault = None,
      main_sql = (\<lambda>i. if i = 42
         then Inr [\<lparr>AgentName = PStr ''J. Smith'',
                    NumberOfReportsSuccessfullyAnalyzed = PInt 12,
                    AnalysisPeriodNote = PStr ''Q1 2024''\<rparr>]
         else Inr []),
      strengths_sql = (\<lambda>i. if i = 42 then Inr [PStr ''Clear tone''] else Inr []),
      development_areas_sql = (\<lambda>i. Inr []),
      coaching_focus_sql = (\<lambda>i. if i = 42
         then Inr [\<lparr>CoachingFocusID = PInt 7, AreaText = PStr ''Hold Procedure''\<rparr>]
         else Inr []),
      coaching_actions_sql = (\<lambda>f. if f = PInt 7 then Inr [PStr ''Confirm before hold'']
         else Inr []),
      detail_sql = (\<lambda>i. if i = 42
         then Inr [\<lparr>QualityPointText = PStr ''Greeting'',
                    TrendObservation = PStr ''Consistent''\<rparr>]
         else Inr [])\<rparr>"

text \<open>A report whose header has a \<^verbatim>\<open>NULL\<close> count and an empty period note.\<close>

definition blank_header_report :: "(string \<times> pyval) list" where
  "blank_header_report =
     [(''report_header'',
         PDict [(''agent_name'', PStr ''J. Smith''),
                (''number_of_reports_successfully_analyzed'', PNone),
                (''analysis_period_note'', PStr [])])]"




section \<open>Properties of the styling function\<close>

lemma char_of_nat_eq_iff: "n < 256 \<Longrightarrow> (char_of (n::nat) = l) = (n = of_char l)"
proof -
  assume n: "n < 256"
  have "(char_of n = l) = ((of_char (char_of n) :: nat) = of_char l)"
    by (simp only: of_char_eq_iff)
  also have "\<dots> = (n = of_char l)" using n by simp
  finally show ?thesis .
qed

lemma lower_char_eq_iff:
  assumes "97 \<le> (of_char l :: nat)" "(of_char l :: nat) \<le> 122"
  shows "(lower_char c = l) = same_letter c l"
proof -
  let ?n = "of_char c :: nat"
  show ?thesis
  proof (cases "(65 \<le> ?n \<and> ?n \<le> 90) \<or> (192 \<le> ?n \<and> ?n \<le> 222 \<and> ?n \<noteq> 215)")
    case True
    then have lc: "lower_char c = char_of (?n + 32)"
      by (simp add: lower_char_def Let_def)
    have ne: "c \<noteq> l" using True assms by auto
    have "?n + 32 < 256" using True by auto
    then have "(lower_char c = l) = (?n + 32 = of_char l)"
      unfolding lc by (rule char_of_nat_eq_iff)
    then show ?thesis using True assms ne
      by (auto simp: same_letter_def)
  next
    case False
    then have lc: "lower_char c = c"
      unfolding lower_char_def Let_def by (simp only: if_False)
    show ?thesis unfolding lc using False by (auto simp: same_letter_def)
  qed
qed

text \<open>Comparing the lowered finding with a lower-case ASCII word is the case-insensitive
  comparison.\<close>

lemma py_lower_eq_iff:
  "ascii_lower_word w \<Longrightarrow> (py_lower s = w) = caseless_eq s w"
proof (induction s arbitrary: w)
  case Nil
  then show ?case by (auto simp: py_lower_def caseless_eq_def)
next
  case (Cons c s)
  show ?case
  proof (cases w)
    case Nil
    then show ?thesis by (simp add: py_lower_def caseless_eq_def)
  next
    case (Cons l w')
    with Cons.prems have l: "97 \<le> (of_char l :: nat)" "(of_char l :: nat) \<le> 122"
      and w': "ascii_lower_word w'"
      by (simp_all add: ascii_lower_word_def)
    from Cons.IH[OF w'] lower_char_eq_iff[OF l, of c] Cons show ?thesis
      by (simp add: py_lower_def caseless_eq_def)
  qed
qed

lemma finding_words_lower:
  "ascii_lower_word ''positive''" "ascii_lower_word ''negative''" "ascii_lower_word ''neutral''"
  by (simp_all add: ascii_lower_word_def)

text \<open>
  Claim C1, as the code has it. An absent or empty finding leaves the run as it is. A
  finding that equals "positive", "negative" or "neutral" case-insensitively is coloured
  dark green, dark red or dark blue and set bold. Any other non-empty finding keeps its
  colour and is set bold all the same.
\<close>

theorem finding_color_and_bold:
  "apply_finding_color_to_run r None = r \<and>
   apply_finding_color_to_run r (Some []) = r \<and>
   (\<forall>s. s \<noteq> [] \<longrightarrow>
      apply_finding_color_to_run r (Some s) =
        (if caseless_eq s ''positive'' then r\<lparr>rgb := Some dark_green, bold := Some True\<rparr>
         else if caseless_eq s ''negative'' then r\<lparr>rgb := Some dark_red, bold := Some True\<rparr>
         else if caseless_eq s ''neutral'' then r\<lparr>rgb := Some dark_blue, bold := Some True\<rparr>
         else r\<lparr>bold := Some True\<rparr>))"
  by (simp add: apply_finding_color_to_run_def Let_def
        py_lower_eq_iff[OF finding_words_lower(1)]
        py_lower_eq_iff[OF finding_words_lower(2)]
        py_lower_eq_iff[OF finding_words_lower(3)])

theorem finding_color_and_bold_witness:
  "apply_finding_color_to_run \<lparr>rgb = None, bold = None\<rparr> (Some ''Positive'') =
     \<lparr>rgb = Some (RGBColor 0 100 0), bold = Some True\<rparr> \<and>
   apply_finding_color_to_run \<lparr>rgb = None, bold = None\<rparr> (Some ''NEGATIVE'') =
     \<lparr>rgb = Some (RGBColor 192 0 0), bold = Some True\<rparr> \<and>
   apply_finding_color_to_run \<lparr>rgb = None, bold = None\<rparr> (Some ''neutral'') =
     \<lparr>rgb = Some (RGBColor 0 0 139), bold = Some True\<rparr> \<and>
   apply_finding_color_to_run \<lparr>rgb = None, bold = None\<rparr> None = \<lparr>rgb = None, bold = None\<rparr>"
  using finding_color_and_bold [of "\<lparr>rgb = None, bold = None\<rparr>"]
  by (simp add: caseless_eq_def same_letter_def dark_green_def dark_red_def dark_blue_def)

text \<open>The finding "Mixed" is none of the three words, and the run is set bold.\<close>

theorem other_finding_is_set_bold:
  "\<not> caseless_eq ''Mixed'' ''positive'' \<and> \<not> caseless_eq ''Mixed'' ''negative'' \<and>
   \<not> caseless_eq ''Mixed'' ''neutral'' \<and>
   apply_finding_color_to_run \<lparr>rgb = None, bold = None\<rparr> (Some ''Mixed'') =
     \<lparr>rgb = None, bold = Some True\<rparr> \<and>
   apply_finding_color_to_run \<lparr>rgb = None, bold = None\<rparr> (Some ''Mixed'') \<noteq>
     \<lparr>rgb = None, bold = None\<rparr>"
  by (simp add: caseless_eq_def same_letter_def apply_finding_color_to_run_def
        py_lower_def lower_char_def)

section \<open>Rendering: the calls made\<close>

text \<open>The laws of sequencing, and the calls each part of the renderer makes on a report of
  the data model.\<close>

lemma bindM_liftE_Inr: "bindM (liftE (Inr x)) f = f x"
  by (simp add: bindM_def liftE_def fun_eq_iff)

lemma bindM_returnM: "bindM (returnM x) f = f x"
  by (simp add: bindM_def returnM_def fun_eq_iff)

lemma bindM_assoc: "bindM (bindM m f) g = bindM m (\<lambda>x. bindM (f x) g)"
  by (auto simp: bindM_def fun_eq_iff split: prod.splits sum.splits)

lemmas monad_laws = bindM_liftE_Inr bindM_returnM bindM_assoc

lemma play_append:
  "play env doc (ops1 @ ops2) =
     (case play env doc ops1 of
        (Inl e, doc') \<Rightarrow> (Inl e, doc')
      | (Inr u, doc') \<Rightarrow> play env doc' ops2)"
  by (induction ops1 arbitrary: doc) (auto split: option.splits)



lemma play_result:
  "(case play env doc ops of
      (Inr u, doc') \<Rightarrow> doc' = doc @ ops
    | (Inl e, doc') \<Rightarrow> lib_fault env e)"
proof (induction ops arbitrary: doc)
  case Nil
  show ?case by simp
next
  case (Cons op ops)
  show ?case
  proof (cases "docx env doc op")
    case None
    with Cons[of "doc @ [op]"] show ?thesis
      by (simp split: prod.splits sum.splits)
  next
    case (Some e)
    then show ?thesis by (auto simp: lib_fault_def)
  qed
qed

lemma plays_emits: "plays env m ops \<Longrightarrow> emits env m ops"
  using play_result[of env _ ops] by (simp add: plays_def emits_def)

lemma plays_call: "plays env (docx_call env op) [op]"
  by (auto simp: plays_def docx_call_def split: option.splits)

lemma plays_return: "plays env (returnM ()) []"
  by (simp add: plays_def returnM_def)

lemma plays_bind:
  assumes "plays env m ops1" and "\<And>x. plays env (f x) ops2"
  shows "plays env (bindM m f) (ops1 @ ops2)"
  using assms
  by (auto simp: plays_def bindM_def play_append split: prod.splits sum.splits)

lemma plays_call_bind:
  "plays env (f ()) ops \<Longrightarrow> plays env (bindM (docx_call env op) f) (op # ops)"
  using plays_bind[OF plays_call, of env f ops op] by simp

lemma plays_forM:
  "(\<And>x. x \<in> set xs \<Longrightarrow> plays env (body x) (g x)) \<Longrightarrow>
   plays env (forM xs body) (concat (map g xs))"
proof (induction xs)
  case Nil
  show ?case by (simp add: plays_return)
next
  case (Cons x xs)
  have "plays env (bindM (body x) (\<lambda>_. forM xs body)) (g x @ concat (map g xs))"
    by (rule plays_bind) (simp_all add: Cons)
  then show ?case by simp
qed

lemma plays_paragraphs:
  "plays env (forM xs (\<lambda>item. docx_call env (AddParagraph item st)))
     (map (\<lambda>item. AddParagraph item st) xs)"
  using plays_forM[of xs env "\<lambda>item. docx_call env (AddParagraph item st)" "\<lambda>item. [AddParagraph item st]"]
  by (simp add: plays_call)

lemma plays_bulleted_section:
  assumes "is_dict qs" "is_list (field qs key (PList []))"
  shows "plays env (bulleted_section env qs key title) (bulleted_ops (list_at qs key) title)"
proof -
  from assms(1) obtain d where qs: "qs = PDict d" by (cases qs) auto
  from assms(2) obtain xs where g: "dict_get d key (PList []) = PList xs"
    by (cases "dict_get d key (PList [])") (auto simp: qs field_def)
  have la: "list_at (PDict d) key = xs" using g by (simp add: list_at_def field_def)
  show ?thesis
  proof (cases "xs = []")
    case True
    then show ?thesis
      by (simp add: bulleted_section_def qs g la bulleted_ops_def monad_laws plays_return)
  next
    case False
    then show ?thesis
      by (simp add: bulleted_section_def qs g la bulleted_ops_def monad_laws)
         (intro plays_call_bind plays_paragraphs)
  qed
qed

lemma plays_coaching_item:
  assumes "focus_shaped focus"
  shows "plays env (coaching_item env focus) (coaching_item_ops focus)"
proof -
  from assms obtain d where f: "focus = PDict d" by (cases focus) (auto simp: focus_shaped_def)
  from assms obtain xs where xs: "dict_get d ''specific_actions'' (PList []) = PList xs"
    by (cases "dict_get d ''specific_actions'' (PList [])") (auto simp: focus_shaped_def f field_def)
  have ac: "actions_of (PDict d) = xs" using xs by (simp add: actions_of_def list_at_def field_def)
  have ar: "area_of (PDict d) = dict_get d ''area'' (PStr ''Focus Area'')"
    by (simp add: area_of_def field_def)
  show ?thesis
  proof (cases "xs = []")
    case True
    then show ?thesis
      by (simp add: coaching_item_def coaching_item_ops_def f xs ac ar monad_laws)
         (intro plays_call_bind plays_return)
  next
    case False
    then show ?thesis
      by (simp add: coaching_item_def coaching_item_ops_def f xs ac ar monad_laws)
         (intro plays_call_bind plays_paragraphs)
  qed
qed

lemma plays_coaching_section:
  assumes "is_dict qs" "is_list (field qs ''consolidated_coaching_focus'' (PList []))"
    "list_all focus_shaped (list_at qs ''consolidated_coaching_focus'')"
  shows "plays env (coaching_section env qs)
     (coaching_ops (list_at qs ''consolidated_coaching_focus''))"
proof -
  from assms(1) obtain d where qs: "qs = PDict d" by (cases qs) auto
  from assms(2) obtain xs where g: "dict_get d ''consolidated_coaching_focus'' (PList []) = PList xs"
    by (cases "dict_get d ''consolidated_coaching_focus'' (PList [])") (auto simp: qs field_def)
  have la: "list_at (PDict d) ''consolidated_coaching_focus'' = xs"
    using g by (simp add: list_at_def field_def)
  from assms(3) have sh: "\<And>x. x \<in> set xs \<Longrightarrow> focus_shaped x"
    by (simp add: qs la list_all_iff)
  have loop: "plays env (forM xs (coaching_item env)) (concat (map coaching_item_ops xs))"
    by (rule plays_forM) (simp add: plays_coaching_item sh)
  show ?thesis
  proof (cases "xs = []")
    case True
    then show ?thesis
      by (simp add: coaching_section_def qs g la coaching_ops_def monad_laws plays_return)
  next
    case False
    then show ?thesis
      by (simp add: coaching_section_def qs g la coaching_ops_def monad_laws)
         (intro plays_call_bind loop)
  qed
qed

lemma plays_table_row:
  assumes "is_dict item"
  shows "plays env (table_row env item) (table_row_ops item)"
proof -
  from assms obtain d where i: "item = PDict d" by (cases item) auto
  show ?thesis
    by (simp add: table_row_def table_row_ops_def i field_def monad_laws)
       (intro plays_call_bind plays_call)
qed

lemma plays_table_section:
  assumes "is_list (dict_get json ''detailed_quality_point_analysis'' (PList []))"
    "list_all is_dict (details_of json)"
  shows "plays env (table_section env json) (table_ops (details_of json))"
proof -
  from assms(1) obtain xs where g: "dict_get json ''detailed_quality_point_analysis'' (PList []) = PList xs"
    by (cases "dict_get json ''detailed_quality_point_analysis'' (PList [])") auto
  have la: "details_of json = xs" using g by (simp add: details_of_def list_at_def field_def)
  from assms(2) have sh: "\<And>x. x \<in> set xs \<Longrightarrow> is_dict x"
    by (simp add: la list_all_iff)
  have loop: "plays env (forM xs (table_row env)) (concat (map table_row_ops xs))"
    by (rule plays_forM) (simp add: plays_table_row sh)
  show ?thesis
  proof (cases "xs = []")
    case True
    then show ?thesis
      by (simp add: table_section_def g la table_ops_def plays_return)
  next
    case False
    then show ?thesis
      by (simp add: table_section_def g la table_ops_def monad_laws)
         (intro plays_call_bind loop)
  qed
qed

lemma plays_header_section:
  assumes "is_dict header"
  shows "plays env (header_section env header) (header_ops env header)"
proof -
  from assms obtain d where h: "header = PDict d" by (cases header) auto
  show ?thesis
    by (simp add: header_section_def header_ops_def h field_def monad_laws)
       (intro plays_call_bind plays_call)
qed

lemma plays_render_body:
  assumes "report_shaped json"
  shows "plays env (render_body env json path) (layout env json path)"
proof -
  from assms have sh:
    "is_dict (header_of json)" "is_dict (summary_of json)"
    "is_list (field (summary_of json) ''overall_strengths_observed'' (PList []))"
    "is_list (field (summary_of json) ''overall_areas_for_development'' (PList []))"
    "is_list (field (summary_of json) ''consolidated_coaching_focus'' (PList []))"
    "list_all focus_shaped (list_at (summary_of json) ''consolidated_coaching_focus'')"
    "is_list (dict_get json ''detailed_quality_point_analysis'' (PList []))"
    "list_all is_dict (details_of json)"
    by (simp_all add: report_shaped_def foci_of_def)
  show ?thesis
    unfolding render_body_def layout_def sections_ops_def Let_def
      header_of_def[symmetric] summary_of_def[symmetric]
      strengths_of_def development_areas_of_def foci_of_def append_assoc
    by (intro plays_call_bind plays_bind plays_call plays_header_section plays_bulleted_section
          plays_coaching_section plays_table_section sh)
qed


lemma emits_render_body:
  "report_shaped json \<Longrightarrow> emits env (render_body env json path) (layout env json path)"
  by (rule plays_emits) (rule plays_render_body)

section \<open>Reading the rendered document\<close>

lemma heading_texts_append:
  "heading_texts l (xs @ ys) = heading_texts l xs @ heading_texts l ys"
  by (induction l xs rule: heading_texts.induct) auto


lemma heading_texts_paragraphs:
  "heading_texts l (map (\<lambda>a. AddParagraph a st) xs) = []"
  by (induction xs) auto


lemma focus_blocks_skip:
  "heading_texts 3 xs = [] \<Longrightarrow> focus_blocks (xs @ ys) = focus_blocks ys"
  by (induction xs rule: focus_blocks.induct) (auto split: if_splits)

lemma numbered_paragraphs:
  "numbered_until_heading (map (\<lambda>a. AddParagraph a (Some ''ListNumber'')) xs @ rest) =
     xs @ numbered_until_heading rest"
  by (induction xs) auto


text \<open>The coaching blocks\<close>

lemma heading_texts_coaching_item:
  "heading_texts l (coaching_item_ops f) = (if l = 3 then [area_of f] else [])"
  by (simp add: coaching_item_ops_def heading_texts_append heading_texts_paragraphs)

lemma heading_texts_coaching_items:
  "heading_texts l (concat (map coaching_item_ops foci)) = (if l = 3 then map area_of foci else [])"
  by (induction foci) (simp_all add: heading_texts_append heading_texts_coaching_item)

lemma numbered_coaching_items:
  "numbered_until_heading rest = [] \<Longrightarrow>
   numbered_until_heading (concat (map coaching_item_ops foci) @ rest) = []"
  by (cases foci) (simp_all add: coaching_item_ops_def)

lemma focus_blocks_coaching_item:
  "numbered_until_heading rest = [] \<Longrightarrow>
   focus_blocks (coaching_item_ops f @ rest) = (area_of f, actions_of f) # focus_blocks rest"
  using focus_blocks_skip[of "map (\<lambda>a. AddParagraph a (Some ''ListNumber'')) (actions_of f)" rest]
    numbered_paragraphs[of "actions_of f" rest]
  by (simp add: coaching_item_ops_def heading_texts_paragraphs)

lemma focus_blocks_coaching_items:
  "numbered_until_heading rest = [] \<Longrightarrow>
   focus_blocks (concat (map coaching_item_ops foci) @ rest) =
     map (\<lambda>f. (area_of f, actions_of f)) foci @ focus_blocks rest"
proof (induction foci)
  case Nil
  then show ?case by simp
next
  case (Cons f foci)
  have "numbered_until_heading (concat (map coaching_item_ops foci) @ rest) = []"
    using Cons.prems by (rule numbered_coaching_items)
  then have "focus_blocks (coaching_item_ops f @ concat (map coaching_item_ops foci) @ rest) =
     (area_of f, actions_of f) # focus_blocks (concat (map coaching_item_ops foci) @ rest)"
    by (rule focus_blocks_coaching_item)
  with Cons show ?case by simp
qed

lemma heading_texts_bulleted:
  "heading_texts l (bulleted_ops xs title) = (if l = 2 \<and> xs \<noteq> [] then [PStr title] else [])"
  by (simp add: bulleted_ops_def heading_texts_paragraphs)

lemma heading_texts_table_rows:
  "heading_texts l (concat (map table_row_ops ds)) = []"
  by (induction ds) (simp_all add: table_row_ops_def)

lemma heading_texts_table:
  "heading_texts l (table_ops ds) =
     (if l = 2 \<and> ds \<noteq> [] then [PStr ''Detailed Quality Point Analysis''] else [])"
  by (simp add: table_ops_def heading_texts_table_rows)

lemma heading_texts_coaching:
  "heading_texts l (coaching_ops foci) =
     (if foci = [] then []
      else if l = 2 then [PStr ''Consolidated Coaching & Development Plan'']
      else if l = 3 then map area_of foci else [])"
  by (simp add: coaching_ops_def heading_texts_coaching_items)

lemma heading_texts_header:
  "heading_texts l (header_ops env h) =
     (if l = 1 then [PStr (title_text env (field h ''agent_name'' (PStr ''N/A'')))] else [])"
  by (simp add: header_ops_def)

lemma heading_texts_layout:
  "heading_texts l (layout env json path) =
     (if l = 1 then [PStr (title_text env (field (header_of json) ''agent_name'' (PStr ''N/A'')))]
      else if l = 2 then
        (if strengths_of json = [] then []
         else [PStr ''Key Strengths & Consistent Positive Performance''])
        @ (if development_areas_of json = [] then []
           else [PStr ''Areas for Development & Recurring Challenges''])
        @ (if foci_of json = [] then []
           else [PStr ''Consolidated Coaching & Development Plan''])
        @ (if details_of json = [] then []
           else [PStr ''Detailed Quality Point Analysis''])
      else if l = 3 then map area_of (foci_of json)
      else [])"
  by (simp add: layout_def sections_ops_def heading_texts_append heading_texts_header
        heading_texts_bulleted heading_texts_coaching heading_texts_table)

lemma numbered_table_rest:
  "numbered_until_heading (table_ops ds @ [Save path]) = []"
  by (simp add: table_ops_def)

lemma focus_blocks_table_rest:
  "focus_blocks (table_ops ds @ [Save path]) = []"
  using focus_blocks_skip[of "table_ops ds" "[Save path]"]
  by (simp add: heading_texts_table)

lemma focus_blocks_coaching:
  "focus_blocks (coaching_ops foci @ table_ops ds @ [Save path]) =
     map (\<lambda>f. (area_of f, actions_of f)) foci"
  using focus_blocks_coaching_items[OF numbered_table_rest, of foci ds path]
  by (simp add: coaching_ops_def focus_blocks_table_rest)

lemma focus_blocks_layout:
  "focus_blocks (layout env json path) = map (\<lambda>f. (area_of f, actions_of f)) (foci_of json)"
proof -
  let ?pre = "NewDocument # header_ops env (header_of json)
     @ bulleted_ops (strengths_of json) ''Key Strengths & Consistent Positive Performance''
     @ bulleted_ops (development_areas_of json) ''Areas for Development & Recurring Challenges''"
  let ?rest = "coaching_ops (foci_of json) @ table_ops (details_of json) @ [Save path]"
  have l: "layout env json path = ?pre @ ?rest"
    by (simp add: layout_def sections_ops_def)
  have "heading_texts 3 ?pre = []"
    by (simp add: heading_texts_append heading_texts_header heading_texts_bulleted)
  then have "focus_blocks (?pre @ ?rest) = focus_blocks ?rest"
    by (rule focus_blocks_skip)
  then show ?thesis
    unfolding l by (simp only: focus_blocks_coaching)
qed









section \<open>The scenario, rendered\<close>

lemmas render_defs =
  generate_docx_from_combined_json_def render_body_def header_section_def
  bulleted_section_def coaching_section_def coaching_item_def table_section_def table_row_def
  docx_call_def bindM_def liftE_def returnM_def dict_get_def title_text_def summary_text_def
  py_str_def str_int_def str_nat.simps char_of_def bit_Suc_0_iff Let_def

lemma scenario_eval:
  "generate_docx_from_combined_json quiet_env scenario_report ''out.docx'' =
    \<lparr>returned = True,
     effects =
       [NewDocument,
        AddHeading (PStr ''Performance Trend Analysis & Coaching Report: J. Smith'') 1,
        AddParagraph (PStr ''Analysis based on 12 calls. Period: Q1 2024'') None,
        AddHeading (PStr ''Key Strengths & Consistent Positive Performance'') 2,
        AddParagraph (PStr ''Clear tone'') (Some ''ListBullet''),
        AddHeading (PStr ''Consolidated Coaching & Development Plan'') 2,
        AddHeading (PStr ''Hold Procedure'') 3,
        AddParagraph (PStr []) None,
        AddRun ''Actionable Recommendations:'',
        SetRunBold,
        AddParagraph (PStr ''Confirm before hold'') (Some ''ListNumber''),
        AddHeading (PStr ''Detailed Quality Point Analysis'') 2,
        AddTable 1 3,
        SetTableStyle ''Table Grid'',
        SetHeaderCell 0 ''Quality Point'',
        SetHeaderCell 1 ''Trend Observation'',
        SetHeaderCell 2 ''Coaching Recommendation'',
        BoldHeaderCell 0, BoldHeaderCell 1, BoldHeaderCell 2,
        AddRow,
        SetRowCell 0 (PStr ''Greeting''),
        SetRowCell 1 (PStr ''Consistent''),
        SetRowCell 2 (PStr []),
        Save ''out.docx''],
     dialogs = []\<rparr>"
  by (simp add: quiet_env_def scenario_report_def render_defs)

lemma scenario_shaped: "report_shaped scenario_report"
  by (simp add: report_shaped_def scenario_report_def header_of_def summary_of_def field_def
        foci_of_def details_of_def list_at_def focus_shaped_def dict_get_def)

section \<open>Properties of the renderer\<close>


lemma generate_shaped:
  assumes "report_shaped json"
  shows "(returned (generate_docx_from_combined_json env json path) \<and>
          effects (generate_docx_from_combined_json env json path) = layout env json path \<and>
          dialogs (generate_docx_from_combined_json env json path) = []) \<or>
         (\<not> returned (generate_docx_from_combined_json env json path) \<and>
          (\<exists>e. lib_fault env e \<and>
             dialogs (generate_docx_from_combined_json env json path) =
               [ShowError ''DOCX Generation Error'' ''Failed to generate the .docx file:'' e]))"
proof -
  from emits_render_body[OF assms, of env path]
  have "case render_body env json path [] of
          (Inr u, doc') \<Rightarrow> doc' = [] @ layout env json path
        | (Inl e, doc') \<Rightarrow> lib_fault env e"
    unfolding emits_def by (rule spec)
  then show ?thesis
    by (auto simp: generate_docx_from_combined_json_def split: prod.splits sum.splits)
qed

lemma generate_rendered:
  assumes "report_shaped json" "returned (generate_docx_from_combined_json env json path)"
  shows "effects (generate_docx_from_combined_json env json path) = layout env json path"
  using generate_shaped[OF assms(1), of env path] assms(2) by auto

text \<open>
  Claim C4. When a report of the data model is rendered, the level-3 headings of the
  document are the area labels of the coaching foci, one per focus and in their order, and
  the numbered paragraphs under each heading are the actions of that focus, as many and in
  the same order.
\<close>

theorem coaching_blocks_match_foci:
  assumes "report_shaped json_data"
    and "returned (generate_docx_from_combined_json env json_data docx_filepath)"
  shows "heading_texts 3 (effects (generate_docx_from_combined_json env json_data docx_filepath)) =
           map area_of (foci_of json_data) \<and>
         length (heading_texts 3
           (effects (generate_docx_from_combined_json env json_data docx_filepath))) =
           length (foci_of json_data) \<and>
         focus_blocks (effects (generate_docx_from_combined_json env json_data docx_filepath)) =
           map (\<lambda>focus. (area_of focus, actions_of focus)) (foci_of json_data) \<and>
         map (\<lambda>block. length (snd block))
           (focus_blocks (effects (generate_docx_from_combined_json env json_data docx_filepath))) =
           map (\<lambda>focus. length (actions_of focus)) (foci_of json_data)"
  unfolding generate_rendered[OF assms]
  by (simp add: heading_texts_layout focus_blocks_layout comp_def)

theorem coaching_blocks_match_foci_witness:
  "report_shaped scenario_report \<and>
   returned (generate_docx_from_combined_json quiet_env scenario_report ''out.docx'') \<and>
   heading_texts 3 (effects (generate_docx_from_combined_json quiet_env scenario_report ''out.docx''))
     = [PStr ''Hold Procedure''] \<and>
   focus_blocks (effects (generate_docx_from_combined_json quiet_env scenario_report ''out.docx''))
     = [(PStr ''Hold Procedure'', [PStr ''Confirm before hold''])]"
proof -
  have r: "returned (generate_docx_from_combined_json quiet_env scenario_report ''out.docx'')"
    by (simp add: scenario_eval)
  have f: "foci_of scenario_report =
      [PDict [(''area'', PStr ''Hold Procedure''),
              (''specific_actions'', PList [PStr ''Confirm before hold''])]]"
    by (simp add: foci_of_def summary_of_def scenario_report_def list_at_def field_def dict_get_def)
  from coaching_blocks_match_foci[OF scenario_shaped r] r scenario_shaped show ?thesis
    by (simp add: f area_of_def actions_of_def list_at_def field_def dict_get_def)
qed





lemma layout_header_ops:
  "layout env json path ! 1 =
     AddHeading (PStr (title_text env (field (header_of json) ''agent_name'' (PStr ''N/A'')))) 1"
  "layout env json path ! 2 =
     AddParagraph
        (PStr (summary_text env
                 (field (header_of json) ''number_of_reports_successfully_analyzed'' (PStr ''N/A''))
                 (field (header_of json) ''analysis_period_note'' (PStr ''N/A'')))) None"
  by (simp_all add: layout_def header_ops_def)

text \<open>
  Claim C6, as the code has it. The summary paragraph of a rendered report reads
  "Analysis based on N calls. Period: P", where N and P are the texts of the header's count
  and period note. "N/A" stands in only for a key that is absent from the header; a value
  that is present is written as its text, the empty string as nothing and \<^verbatim>\<open>None\<close> as
  "None".
\<close>

theorem summary_paragraph_text:
  assumes "report_shaped json_data"
    and "returned (generate_docx_from_combined_json env json_data docx_filepath)"
    and "header_of json_data = PDict header"
  shows
    "effects (generate_docx_from_combined_json env json_data docx_filepath) ! 2 =
       AddParagraph
         (PStr (''Analysis based on ''
                @ (case map_of header ''number_of_reports_successfully_analyzed'' of
                     None \<Rightarrow> ''N/A'' | Some v \<Rightarrow> py_str env v)
                @ '' calls. Period: ''
                @ (case map_of header ''analysis_period_note'' of
                     None \<Rightarrow> ''N/A'' | Some v \<Rightarrow> py_str env v))) None \<and>
     py_str env (PStr []) = [] \<and> py_str env PNone = ''None''"
  unfolding generate_rendered[OF assms(1,2)]
  by (simp add: layout_header_ops assms(3) field_def dict_get_def summary_text_def py_str_def
        split: option.splits)

lemma blank_header_shaped: "report_shaped blank_header_report"
  by (simp add: report_shaped_def blank_header_report_def header_of_def summary_of_def field_def
        foci_of_def details_of_def list_at_def focus_shaped_def dict_get_def)

lemma blank_header_eval:
  "generate_docx_from_combined_json quiet_env blank_header_report ''out.docx'' =
     \<lparr>returned = True,
      effects =
        [NewDocument,
         AddHeading (PStr ''Performance Trend Analysis & Coaching Report: J. Smith'') 1,
         AddParagraph (PStr ''Analysis based on None calls. Period: '') None,
         Save ''out.docx''],
      dialogs = []\<rparr>"
  by (simp add: quiet_env_def blank_header_report_def render_defs)

theorem summary_paragraph_text_witness:
  "report_shaped scenario_report \<and>
   returned (generate_docx_from_combined_json quiet_env scenario_report ''out.docx'') \<and>
   effects (generate_docx_from_combined_json quiet_env scenario_report ''out.docx'') ! 2 =
     AddParagraph (PStr ''Analysis based on 12 calls. Period: Q1 2024'') None \<and>
   effects (generate_docx_from_combined_json quiet_env
              [(''report_header'', PDict [(''agent_name'', PStr ''J. Smith'')])] ''out.docx'') ! 2 =
     AddParagraph (PStr ''Analysis based on N/A calls. Period: N/A'') None"
proof -
  have r: "returned (generate_docx_from_combined_json quiet_env scenario_report ''out.docx'')"
    by (simp add: scenario_eval)
  have h: "header_of scenario_report =
      PDict [(''agent_name'', PStr ''J. Smith''),
             (''number_of_reports_successfully_analyzed'', PInt 12),
             (''analysis_period_note'', PStr ''Q1 2024'')]"
    by (simp add: header_of_def scenario_report_def dict_get_def)
  let ?j = "[(''report_header'', PDict [(''agent_name'', PStr ''J. Smith'')])]"
  have s2: "report_shaped ?j"
    by (simp add: report_shaped_def header_of_def summary_of_def field_def
        foci_of_def details_of_def list_at_def focus_shaped_def dict_get_def)
  have r2: "returned (generate_docx_from_combined_json quiet_env ?j ''out.docx'')"
    by (simp add: quiet_env_def render_defs)
  have h2: "header_of ?j = PDict [(''agent_name'', PStr ''J. Smith'')]"
    by (simp add: header_of_def dict_get_def)
  from summary_paragraph_text[OF scenario_shaped r h]
       summary_paragraph_text[OF s2 r2 h2] r scenario_shaped
  show ?thesis
    by (simp add: py_str_def str_int_def str_nat.simps char_of_def bit_Suc_0_iff)
qed

theorem empty_note_is_not_replaced:
  "returned (generate_docx_from_combined_json quiet_env blank_header_report ''out.docx'') \<and>
   effects (generate_docx_from_combined_json quiet_env blank_header_report ''out.docx'') ! 2 =
     AddParagraph (PStr ''Analysis based on None calls. Period: '') None \<and>
   effects (generate_docx_from_combined_json quiet_env blank_header_report ''out.docx'') ! 2 \<noteq>
     AddParagraph (PStr ''Analysis based on N/A calls. Period: N/A'') None"
  by (simp add: blank_header_eval)











section \<open>The assembler, query by query\<close>

lemma initial_report_with: "initial_report r ss ds = report_with r ss ds [] []"
  by (simp add: initial_report_def report_with_def)

lemma append_coaching_focus_report:
  "append_coaching_focus (report_with r ss ds foci dets) e =
     Inr (report_with r ss ds (foci @ [e]) dets)"
  by (simp add: append_coaching_focus_def report_with_def bindE_def)

lemma append_detail_report:
  "append_detail (report_with r ss ds foci dets) e =
     Inr (report_with r ss ds foci (dets @ [e]))"
  by (simp add: append_detail_def report_with_def bindE_def)

lemma fst_bindM:
  "fst (bindM m f s) =
     (case m s of (Inl e, s') \<Rightarrow> Inl e | (Inr x, s') \<Rightarrow> fst (f x s'))"
  by (simp add: bindM_def split: prod.splits sum.splits)

lemma fst_execute: "execute q r s = (r, s @ [q])"
  by (simp add: execute_def)

lemma coaching_focus_loop_result:
  "fst (coaching_focus_loop d frs (report_with r ss ds foci dets) q) =
     (case collect_foci d frs of
        Inl e \<Rightarrow> Inl e
      | Inr es \<Rightarrow> Inr (report_with r ss ds (foci @ es) dets))"
proof (induction frs arbitrary: foci q)
  case Nil
  show ?case by (simp add: returnM_def)
next
  case (Cons fr frs)
  show ?case
  proof (cases "coaching_actions_sql d (CoachingFocusID fr)")
    case (Inl e)
    then show ?thesis
      by (simp add: fst_bindM fst_execute bindE_def)
  next
    case (Inr actions)
    then show ?thesis
      by (simp add: fst_bindM fst_execute bindE_def liftE_def append_coaching_focus_report
            focus_entry_def[symmetric] Cons.IH split: sum.splits)
  qed
qed

lemma detail_loop_result:
  "detail_loop drs (report_with r ss ds foci dets) q =
     (Inr (report_with r ss ds foci (dets @ map detail_entry drs)), q)"
proof (induction drs arbitrary: dets)
  case Nil
  show ?case by (simp add: returnM_def)
next
  case (Cons dr drs)
  show ?case
    by (simp add: bindM_def liftE_def append_detail_report detail_entry_def[symmetric] Cons.IH)
qed

lemma fst_bindM_execute:
  "fst (bindM (execute q r) f s) =
     (case r of Inl e \<Rightarrow> Inl e | Inr x \<Rightarrow> fst (f x (s @ [q])))"
  by (simp add: fst_bindM execute_def split: sum.splits)

lemma fst_bindM_focus_loop:
  "fst (bindM (coaching_focus_loop d frs (report_with r ss ds foci dets)) f q) =
     (case collect_foci d frs of
        Inl e \<Rightarrow> Inl e
      | Inr es \<Rightarrow>
          fst (f (report_with r ss ds (foci @ es) dets)
                 (snd (coaching_focus_loop d frs (report_with r ss ds foci dets) q))))"
proof -
  obtain res q' where l: "coaching_focus_loop d frs (report_with r ss ds foci dets) q = (res, q')"
    by (cases "coaching_focus_loop d frs (report_with r ss ds foci dets) q")
  from coaching_focus_loop_result[of d frs r ss ds foci dets q] l
  have res: "res = (case collect_foci d frs of
        Inl e \<Rightarrow> Inl e
      | Inr es \<Rightarrow> Inr (report_with r ss ds (foci @ es) dets))"
    by simp
  show ?thesis
    by (cases "collect_foci d frs") (simp_all add: fst_bindM l res)
qed

lemma fst_bindM_detail_loop:
  "fst (bindM (detail_loop drs (report_with r ss ds foci dets)) f q) =
     fst (f (report_with r ss ds foci (dets @ map detail_entry drs)) q)"
  by (simp add: fst_bindM detail_loop_result)

lemma fetch_body_result: "fst (fetch_body d analysis_id []) = assemble d analysis_id"
proof (cases "cursor_fault d")
  case (Some e)
  then show ?thesis by (simp add: fetch_body_def assemble_def fst_bindM liftE_def)
next
  case None
  show ?thesis
    unfolding fetch_body_def assemble_def
    by (simp add: None bindM_liftE_Inr fst_bindM_execute fst_bindM_focus_loop
          fst_bindM_detail_loop bindE_def returnM_def initial_report_with
          split: sum.splits list.splits)
qed

lemma fetch_returned:
  "returned (fetch_combined_analysis_data d analysis_id) =
     (case assemble d analysis_id of Inl e \<Rightarrow> None | Inr r \<Rightarrow> r)"
  using fetch_body_result[of d analysis_id]
  by (auto simp: fetch_combined_analysis_data_def split: prod.splits sum.splits)

lemma fetch_dialogs:
  "dialogs (fetch_combined_analysis_data d analysis_id) =
     (case assemble d analysis_id of
        Inl e \<Rightarrow> [ShowError ''Database Query Error''
                    ''An error occurred while fetching report details:'' e]
      | Inr r \<Rightarrow> [])"
  using fetch_body_result[of d analysis_id]
  by (auto simp: fetch_combined_analysis_data_def split: prod.splits sum.splits)

lemma collect_foci_ok:
  "(\<exists>es. collect_foci d frs = Inr es) =
     list_all (\<lambda>fr. \<not> isl (coaching_actions_sql d (CoachingFocusID fr))) frs"
  by (induction frs) (auto simp: bindE_def split: sum.splits)

lemma collect_foci_entries:
  "collect_foci d frs = Inr es \<Longrightarrow>
   \<forall>f \<in> set es. \<exists>a as. f = PDict [(''area'', a), (''specific_actions'', PList as)]"
  by (induction frs arbitrary: es) (auto simp: bindE_def focus_entry_def split: sum.splits)

lemma assemble_Some:
  assumes "assemble d analysis_id = Inr (Some report)"
  shows "\<exists>main_row others ss ds frs foci drs.
           cursor_fault d = None \<and>
           main_sql d analysis_id = Inr (main_row # others) \<and>
           strengths_sql d analysis_id = Inr ss \<and>
           development_areas_sql d analysis_id = Inr ds \<and>
           coaching_focus_sql d analysis_id = Inr frs \<and>
           collect_foci d frs = Inr foci \<and>
           detail_sql d analysis_id = Inr drs \<and>
           report = report_with main_row ss ds foci (map detail_entry drs)"
  using assms
  by (auto simp: assemble_def bindE_def split: option.splits sum.splits list.splits)

lemma assemble_ok:
  assumes "cursor_fault d = None" "main_sql d analysis_id = Inr (main_row # others)"
  shows "(\<exists>report. assemble d analysis_id = Inr (Some report)) = child_queries_succeed d analysis_id"
  using assms
  by (auto simp: assemble_def bindE_def child_queries_succeed_def collect_foci_ok[symmetric]
        split: sum.splits)

lemma assemble_not_None:
  assumes "cursor_fault d = None" "main_sql d analysis_id = Inr (main_row # others)"
  shows "assemble d analysis_id \<noteq> Inr None"
  using assms
  by (auto simp: assemble_def bindE_def split: sum.splits)

section \<open>Properties of the assembler\<close>

text \<open>
  Claim C3. When the main query returns no row, the assembler returns \<^verbatim>\<open>None\<close> at once:
  the main query is the only statement it has executed, no report is built and no message
  box is shown.
\<close>

theorem no_main_row_returns_none:
  assumes "cursor_fault d = None" and "main_sql d analysis_id = Inr []"
  shows "fetch_combined_analysis_data d analysis_id =
           \<lparr>returned = None, effects = [MainQuery analysis_id], dialogs = []\<rparr>"
  using assms
  by (simp add: fetch_combined_analysis_data_def fetch_body_def bindM_def liftE_def
        execute_def returnM_def)

theorem no_main_row_returns_none_witness:
  "cursor_fault scenario_db = None \<and> main_sql scenario_db 7 = Inr [] \<and>
   fetch_combined_analysis_data scenario_db 7 =
     \<lparr>returned = None, effects = [MainQuery 7], dialogs = []\<rparr>"
proof -
  have c: "cursor_fault scenario_db = None" by (simp add: scenario_db_def)
  have m: "main_sql scenario_db 7 = Inr []" by (simp add: scenario_db_def)
  from no_main_row_returns_none[OF c m] c m show ?thesis by simp
qed

text \<open>
  Claim C5. When the main query returns a row, every report the assembler returns has a
  header holding exactly the agent name, the number of analysed reports and the period
  note of the first such row. It returns a report whenever the remaining queries all
  return rows; when one of them raises it returns \<^verbatim>\<open>None\<close> and shows a message box.
\<close>

theorem header_matches_main_row:
  assumes "cursor_fault d = None"
    and "main_sql d analysis_id = Inr (main_row # other_rows)"
  shows
    "(\<forall>report. returned (fetch_combined_analysis_data d analysis_id) = Some report \<longrightarrow>
        py_subscript report ''report_header'' =
          Inr (PDict [(''agent_name'', AgentName main_row),
                      (''number_of_reports_successfully_analyzed'',
                         NumberOfReportsSuccessfullyAnalyzed main_row),
                      (''analysis_period_note'', AnalysisPeriodNote main_row)])) \<and>
     (child_queries_succeed d analysis_id \<longrightarrow>
        (\<exists>report. returned (fetch_combined_analysis_data d analysis_id) = Some report)) \<and>
     (\<not> child_queries_succeed d analysis_id \<longrightarrow>
        returned (fetch_combined_analysis_data d analysis_id) = None \<and>
        dialogs (fetch_combined_analysis_data d analysis_id) \<noteq> [])"
proof (intro conjI allI impI)
  fix report
  assume "returned (fetch_combined_analysis_data d analysis_id) = Some report"
  then have "assemble d analysis_id = Inr (Some report)"
    by (simp add: fetch_returned split: sum.splits)
  from assemble_Some[OF this] assms(2)
  show "py_subscript report ''report_header'' =
          Inr (PDict [(''agent_name'', AgentName main_row),
                      (''number_of_reports_successfully_analyzed'',
                         NumberOfReportsSuccessfullyAnalyzed main_row),
                      (''analysis_period_note'', AnalysisPeriodNote main_row)])"
    by (auto simp: report_with_def)
next
  assume "child_queries_succeed d analysis_id"
  with assemble_ok[OF assms] obtain report where "assemble d analysis_id = Inr (Some report)"
    by blast
  then show "\<exists>report. returned (fetch_combined_analysis_data d analysis_id) = Some report"
    by (simp add: fetch_returned)
next
  assume n: "\<not> child_queries_succeed d analysis_id"
  with assemble_ok[OF assms] have no: "\<And>report. assemble d analysis_id \<noteq> Inr (Some report)"
    by blast
  with assemble_not_None[OF assms] obtain e where "assemble d analysis_id = Inl e"
    by (cases "assemble d analysis_id") auto
  then show "returned (fetch_combined_analysis_data d analysis_id) = None"
    and "dialogs (fetch_combined_analysis_data d analysis_id) \<noteq> []"
    by (simp_all add: fetch_returned fetch_dialogs)
qed

lemmas fetch_defs =
  fetch_combined_analysis_data_def fetch_body_def bindM_def liftE_def execute_def returnM_def
  initial_report_def append_coaching_focus_def append_detail_def bindE_def

lemma scenario_fetch_eval:
  "fetch_combined_analysis_data scenario_db 42 =
     \<lparr>returned = Some (PDict scenario_report),
      effects = [MainQuery 42, StrengthsQuery 42, DevelopmentAreasQuery 42,
                 CoachingFocusQuery 42, CoachingActionsQuery (PInt 7), DetailQuery 42],
      dialogs = []\<rparr>"
  by (simp add: scenario_db_def scenario_report_def fetch_defs)

theorem header_matches_main_row_witness:
  "cursor_fault scenario_db = None \<and>
   child_queries_succeed scenario_db 42 \<and>
   returned (fetch_combined_analysis_data scenario_db 42) = Some (PDict scenario_report) \<and>
   py_subscript (PDict scenario_report) ''report_header'' =
     Inr (PDict [(''agent_name'', PStr ''J. Smith''),
                 (''number_of_reports_successfully_analyzed'', PInt 12),
                 (''analysis_period_note'', PStr ''Q1 2024'')])"
proof -
  let ?row = "\<lparr>AgentName = PStr ''J. Smith'',
                NumberOfReportsSuccessfullyAnalyzed = PInt 12,
                AnalysisPeriodNote = PStr ''Q1 2024''\<rparr>"
  have c: "cursor_fault scenario_db = None" by (simp add: scenario_db_def)
  have m: "main_sql scenario_db 42 = Inr (?row # [])" by (simp add: scenario_db_def)
  have k: "child_queries_succeed scenario_db 42"
    by (simp add: child_queries_succeed_def scenario_db_def)
  have r: "returned (fetch_combined_analysis_data scenario_db 42) = Some (PDict scenario_report)"
    by (simp add: scenario_fetch_eval)
  from header_matches_main_row[OF c m, THEN conjunct1, rule_format, OF r] c k r
  show ?thesis by simp
qed

lemma assembled_report:
  assumes "returned (fetch_combined_analysis_data d analysis_id) = Some report"
  shows "\<exists>main_row ss ds frs foci drs.
           collect_foci d frs = Inr foci \<and>
           report = report_with main_row ss ds foci (map detail_entry drs)"
proof -
  from assms have "assemble d analysis_id = Inr (Some report)"
    by (simp add: fetch_returned split: sum.splits)
  from assemble_Some[OF this] show ?thesis by blast
qed

text \<open>
  Claim C9. Every report the assembler returns has the same three top-level keys, the
  header with its three keys, the summary with its three lists, and the list of details.
  Each coaching focus has an area and a list of actions, and each detail carries the empty
  string as its coaching recommendation.
\<close>

theorem assembled_report_shape:
  assumes "returned (fetch_combined_analysis_data d analysis_id) = Some report"
  shows
    "\<exists>agent count period strengths development_areas foci details.
       report =
         PDict
           [(''report_header'',
               PDict [(''agent_name'', agent),
                      (''number_of_reports_successfully_analyzed'', count),
                      (''analysis_period_note'', period)]),
            (''qualitative_summary_and_coaching_plan'',
               PDict [(''overall_strengths_observed'', PList strengths),
                      (''overall_areas_for_development'', PList development_areas),
                      (''consolidated_coaching_focus'', PList foci)]),
            (''detailed_quality_point_analysis'', PList details)] \<and>
       (\<forall>focus \<in> set foci. \<exists>area actions.
          focus = PDict [(''area'', area), (''specific_actions'', PList actions)]) \<and>
       (\<forall>detail \<in> set details. \<exists>quality_point trend.
          detail = PDict [(''quality_point'', quality_point),
                          (''trend_observation'', trend),
                          (''coaching_recommendation_for_point'', PStr [])])"
proof -
  from assembled_report[OF assms] obtain main_row ss ds frs foci drs
    where c: "collect_foci d frs = Inr foci"
      and r: "report = report_with main_row ss ds foci (map detail_entry drs)"
    by blast
  have d: "\<forall>detail \<in> set (map detail_entry drs). \<exists>quality_point trend.
          detail = PDict [(''quality_point'', quality_point),
                          (''trend_observation'', trend),
                          (''coaching_recommendation_for_point'', PStr [])]"
    by (auto simp: detail_entry_def)
  from collect_foci_entries[OF c] d r show ?thesis
    unfolding report_with_def by blast
qed

theorem assembled_report_shape_witness:
  "returned (fetch_combined_analysis_data scenario_db 42) = Some (PDict scenario_report) \<and>
   (\<exists>agent count period strengths development_areas foci details.
       PDict scenario_report =
         PDict
           [(''report_header'',
               PDict [(''agent_name'', agent),
                      (''number_of_reports_successfully_analyzed'', count),
                      (''analysis_period_note'', period)]),
            (''qualitative_summary_and_coaching_plan'',
               PDict [(''overall_strengths_observed'', PList strengths),
                      (''overall_areas_for_development'', PList development_areas),
                      (''consolidated_coaching_focus'', PList foci)]),
            (''detailed_quality_point_analysis'', PList details)] \<and>
       length foci = 1 \<and> length details = 1)"
proof -
  have r: "returned (fetch_combined_analysis_data scenario_db 42) = Some (PDict scenario_report)"
    by (simp add: scenario_fetch_eval)
  from assembled_report_shape[OF r] obtain agent count period strengths development_areas foci details
    where e: "PDict scenario_report =
         PDict
           [(''report_header'',
               PDict [(''agent_name'', agent),
                      (''number_of_reports_successfully_analyzed'', count),
                      (''analysis_period_note'', period)]),
            (''qualitative_summary_and_coaching_plan'',
               PDict [(''overall_strengths_observed'', PList strengths),
                      (''overall_areas_for_development'', PList development_areas),
                      (''consolidated_coaching_focus'', PList foci)]),
            (''detailed_quality_point_analysis'', PList details)]"
    by blast
  then have "length foci = 1 \<and> length details = 1"
    by (auto simp: scenario_report_def)
  with e r show ?thesis by blast
qed

section \<open>Assembled reports, rendered\<close>








section \<open>Exceptions and the save\<close>




















section \<open>The renderer's own exceptions\<close>





















section \<open>The first exception\<close>

















end
